theory Spec2Isabelle
  imports Main "HOL-Library.Word" "HOL-Library.Sublist"
begin

section \<open>The LLVM runtime module of TVM (src/codegen/llvm/llvm_module.cc)\<close>

text \<open>
  The class \<open>LLVMModuleNode\<close> owns an \<open>llvm::Module\<close> produced by the code generator,
  builds an \<open>llvm::ExecutionEngine\<close> from it on first use, looks exported symbols up in
  the engine and writes the module to disk.

  The embedding follows the C++ text. Pointers are addresses, \<open>nullptr\<close> is address 0, and a
  dereference of a null pointer is the error \<open>NullDereference\<close>. A failed \<open>CHECK\<close> and a
  \<open>LOG(FATAL)\<close> (dmlc logging throws \<open>dmlc::Error\<close>) are error values that carry the
  condition text and the text streamed into the message; the file/line/timestamp header that
  the logging macros add in front is not part of the model. Every member function takes the
  process state and returns an error or a value together with the state it leaves behind.
\<close>

subsection \<open>Values\<close>

type_synonym addr = nat

definition nullptr :: addr where
  "nullptr = 0"

text \<open>
  Objects of LLVM classes are opaque here: a \<open>llvm::Module*\<close>, \<open>llvm::TargetMachine*\<close>,
  \<open>llvm::ExecutionEngine*\<close> is an address, a \<open>llvm::DataLayout\<close> value is a number, and
  what the code reads from them goes through the functions of the record \<open>extern\<close> below.
\<close>

type_synonym DataLayout = nat

record LoweredFunc =
  name :: string
  body :: nat

record TVMContext =
  device_type :: int
  device_id :: int

record TVMArgs =
  "values" :: addr
  type_codes :: addr
  num_args :: int

datatype error =
    CheckFailed string string  \<comment> \<open>\<open>CHECK(cond) << msg\<close>: the condition, the streamed message\<close>
  | LogFatal string            \<comment> \<open>\<open>LOG(FATAL) << msg\<close>\<close>
  | NullDereference            \<comment> \<open>\<open>p->f()\<close> or \<open>*p\<close> with \<open>p == nullptr\<close>\<close>
  | BadFunctionCall            \<comment> \<open>calling an empty \<open>std::function\<close>\<close>

text \<open>
  A \<open>PackedFunc\<close> is either empty (\<open>PackedFunc()\<close>) or the closure built at line 53, which
  captures \<open>faddr\<close> and \<open>sptr_to_self\<close> by value.
\<close>

datatype PackedFunc =
    PackedFunc_empty
  | PackedFunc_lambda (captured_faddr: addr) (captured_sptr_to_self: addr)

text \<open>The calls made on the local \<open>CodeGenLLVM cg\<close> of \<open>Init\<close>, in order.\<close>

datatype cg_call =
    cg_Init string string addr
  | cg_AddFunction LoweredFunc
  | cg_AddMainFunction string

text \<open>Effects on objects outside the node, in the order the code performs them.\<close>

datatype event =
    Ev_create addr addr addr  \<comment> \<open>\<open>builder.create(tm)\<close>: module held by the builder, tm, engine returned\<close>
  | Ev_runStaticConstructorsDestructors addr bool  \<comment> \<open>engine, \<open>isDtors\<close>\<close>
  | Ev_store addr addr        \<comment> \<open>\<open>*p = v\<close>\<close>
  | Ev_delete_Module addr     \<comment> \<open>\<open>module_.reset()\<close> on an owned module\<close>
  | Ev_delete_ExecutionEngine addr  \<comment> \<open>\<open>delete ee_\<close>\<close>

subsection \<open>State\<close>

text \<open>
  What generated code can read and write: pointer-sized memory cells and the thread's last
  error string of the runtime (\<open>TVMAPISetLastError\<close>, \<open>TVMGetLastError\<close>).
\<close>

record host =
  memory :: "addr \<Rightarrow> addr"
  last_error :: string

text \<open>
  The data members of the class, lines 141 to 154, with their names less the final
  underscore, which Isabelle does not allow in a name. \<open>mutex_\<close> is left to
  the interleaved model further down: in a run of one thread a \<open>std::lock_guard\<close> always gets
  the mutex and gives it back at the end of its scope, on every exit.
\<close>

record LLVMModuleNode =
  target_triple :: string
  ee :: addr
  mptr :: addr
  tm :: addr
  module :: addr
  ctx :: addr

record process = LLVMModuleNode +
  this :: addr                      \<comment> \<open>the address of the node itself\<close>
  host :: host
  files :: "string \<rightharpoonup> string"  \<comment> \<open>the file system: path to content\<close>
  trace :: "event list"

text \<open>The members' initialisers (\<open>ee_{nullptr}\<close> and so on) and default constructors.\<close>

definition new_LLVMModuleNode :: "addr \<Rightarrow> host \<Rightarrow> (string \<rightharpoonup> string) \<Rightarrow> process" where
  "new_LLVMModuleNode self h fs =
     \<lparr>target_triple = [], ee = nullptr, mptr = nullptr, tm = nullptr,
      module = nullptr, ctx = nullptr,
      this = self, host = h, files = fs, trace = []\<rparr>"

subsection \<open>Collaborators\<close>

text \<open>
  Everything the file calls and does not define: LLVM, the code generator, the runtime's file
  utilities and constants, the operating system, and the generated code itself. The theorems
  hold for every value of this record.
\<close>

record extern =
  \<comment> \<open>runtime/file\_util.h and runtime/meta\_data.h\<close>
  GetFileFormat :: "string \<Rightarrow> string \<Rightarrow> string"
  tvm_module_ctx :: string
  \<comment> \<open>llvm\_common.h, codegen\_llvm.h\<close>
  GetLLVMTarget :: "string \<Rightarrow> addr \<times> string"
  make_shared_LLVMContext :: addr
  Finish :: "cg_call list \<Rightarrow> addr"
  \<comment> \<open>llvm::Module\<close>
  getTargetTriple :: "addr \<Rightarrow> string"
  getDataLayout :: "addr \<Rightarrow> DataLayout"
  print :: "addr \<Rightarrow> string"
  WriteBitcodeToFile :: "addr \<Rightarrow> string"
  \<comment> \<open>llvm::EngineBuilder, by the module it holds\<close>
  selectTarget :: "addr \<Rightarrow> addr"
  create :: "addr \<Rightarrow> addr \<Rightarrow> addr"
  \<comment> \<open>llvm::TargetMachine\<close>
  createDataLayout :: "addr \<Rightarrow> DataLayout"
  addPassesToEmitFile :: "addr \<Rightarrow> bool"
  emit_object :: "addr \<Rightarrow> addr \<Rightarrow> string"
  \<comment> \<open>llvm::DataLayout: \<open>operator==\<close> and \<open>getStringRepresentation\<close>\<close>
  layout_eq :: "DataLayout \<Rightarrow> DataLayout \<Rightarrow> bool"
  getStringRepresentation :: "DataLayout \<Rightarrow> string"
  \<comment> \<open>llvm::ExecutionEngine\<close>
  getFunctionAddress :: "addr \<Rightarrow> string \<Rightarrow> addr"
  getGlobalValueAddress :: "addr \<Rightarrow> string \<Rightarrow> addr"
  runStaticConstructorsDestructors :: "addr \<Rightarrow> bool \<Rightarrow> host \<Rightarrow> host"
  \<comment> \<open>llvm::raw\_fd\_ostream: \<open>ecode.value()\<close> and \<open>ecode.message()\<close> of opening a path\<close>
  open_ecode :: "string \<Rightarrow> int \<times> string"
  \<comment> \<open>the generated function at an address, called with (values, type\_codes, num\_args)\<close>
  call_faddr :: "addr \<Rightarrow> addr \<Rightarrow> addr \<Rightarrow> int \<Rightarrow> host \<Rightarrow> 32 word \<times> host"

subsection \<open>Lazy construction of the execution engine\<close>

text \<open>
  Lines 118 to 139, the part of \<open>LazyInitJIT\<close> that runs with \<open>mutex_\<close> held.
  \<open>std::move(module_)\<close> leaves \<open>module_\<close> null; \<open>mptr_\<close> keeps pointing at the module.
  The builder is known by the module it was given; \<open>setEngineKind\<close> and \<open>setOptLevel\<close>
  set it up and are part of what \<open>create\<close> stands for. The local \<open>target_triple\<close> and
  \<open>tm\<close> carry a prime, to keep them apart from the members.
\<close>

definition LazyInitJIT_locked :: "extern \<Rightarrow> process \<Rightarrow> (error + unit) \<times> process" where
  "LazyInitJIT_locked x s =
     (if mptr s = nullptr then (Inl NullDereference, s)
      else
        let target_triple' = getTargetTriple x (mptr s);
            builder = module s;
            s1 = s\<lparr>module := nullptr\<rparr>;
            tm' = selectTarget x builder
        in if tm' = nullptr then (Inl NullDereference, s1)
           else
             let layout = createDataLayout x tm'
             in if \<not> layout_eq x layout (getDataLayout x (mptr s1)) then
                  (Inl (CheckFailed ''layout == mptr_->getDataLayout()''
                         (''Data layout mismatch between module(''
                          @ getStringRepresentation x (getDataLayout x (mptr s1)) @ '')''
                          @ '' and ExecutionEngine (''
                          @ getStringRepresentation x layout @ '')'')), s1)
                else
                  let new_ee = create x builder tm';
                      s2 = s1\<lparr>ee := new_ee, trace := trace s1 @ [Ev_create builder tm' new_ee]\<rparr>
                  in if new_ee = nullptr then
                       (Inl (CheckFailed ''ee_ != nullptr''
                              (''Failed to initialize git engine for '' @ target_triple')), s2)
                     else
                       let s3 = s2\<lparr>host := runStaticConstructorsDestructors x new_ee False (host s2),
                                    trace := trace s2 @ [Ev_runStaticConstructorsDestructors new_ee False]\<rparr>;
                           ctx_addr = getGlobalValueAddress x new_ee (tvm_module_ctx x)
                       in if ctx_addr \<noteq> nullptr then
                            (Inr (), s3\<lparr>host := (host s3)\<lparr>memory := (memory (host s3))(ctx_addr := this s3)\<rparr>,
                                         trace := trace s3 @ [Ev_store ctx_addr (this s3)]\<rparr>)
                          else (Inr (), s3))"

text \<open>Lines 115 to 140: the \<open>CHECK\<close> of line 116 comes before the lock is taken.\<close>

definition LazyInitJIT :: "extern \<Rightarrow> process \<Rightarrow> (error + unit) \<times> process" where
  "LazyInitJIT x s =
     (if ee s \<noteq> nullptr then (Inl (CheckFailed ''ee_ == nullptr'' []), s)
      else LazyInitJIT_locked x s)"

subsection \<open>Symbol lookup\<close>

text \<open>
  The statement \<open>if (ee_ == nullptr) LazyInitJIT();\<close> that opens both \<open>PreCompile\<close>
  (line 37) and \<open>GetFunction\<close> (line 48).
\<close>

definition ensure_ee :: "extern \<Rightarrow> process \<Rightarrow> (error + unit) \<times> process" where
  "ensure_ee x s = (if ee s = nullptr then LazyInitJIT x s else (Inr (), s))"

text \<open>Lines 39 to 42, with the mutex held.\<close>

definition PreCompile_locked :: "extern \<Rightarrow> process \<Rightarrow> string \<Rightarrow> (error + unit) \<times> process" where
  "PreCompile_locked x s nm =
     (if ee s = nullptr then (Inl NullDereference, s)
      else
        let faddr = getFunctionAddress x (ee s) nm
        in if faddr = nullptr then
             (Inl (CheckFailed ''faddr != nullptr'' (''Failed to Precompile function '' @ nm)), s)
           else (Inr (), s))"

text \<open>Lines 36 to 43. The device context argument \<open>ctx\<close> is not used.\<close>

definition PreCompile :: "extern \<Rightarrow> process \<Rightarrow> string \<Rightarrow> TVMContext \<Rightarrow> (error + unit) \<times> process" where
  "PreCompile x s nm ctx' =
     (case ensure_ee x s of
        (Inl e, s1) \<Rightarrow> (Inl e, s1)
      | (Inr _, s1) \<Rightarrow> PreCompile_locked x s1 nm)"

text \<open>Lines 50 to 59, with the mutex held.\<close>

definition GetFunction_locked ::
  "extern \<Rightarrow> process \<Rightarrow> string \<Rightarrow> addr \<Rightarrow> (error + PackedFunc) \<times> process" where
  "GetFunction_locked x s nm sptr_to_self =
     (if ee s = nullptr then (Inl NullDereference, s)
      else
        let faddr = getFunctionAddress x (ee s) nm
        in if faddr = nullptr then (Inr PackedFunc_empty, s)
           else (Inr (PackedFunc_lambda faddr sptr_to_self), s))"

text \<open>Lines 45 to 60.\<close>

definition GetFunction ::
  "extern \<Rightarrow> process \<Rightarrow> string \<Rightarrow> addr \<Rightarrow> (error + PackedFunc) \<times> process" where
  "GetFunction x s nm sptr_to_self =
     (case ensure_ee x s of
        (Inl e, s1) \<Rightarrow> (Inl e, s1)
      | (Inr _, s1) \<Rightarrow> GetFunction_locked x s1 nm sptr_to_self)"

text \<open>
  The body of the closure, lines 54 to 58: call the generated function, then
  \<open>CHECK_EQ(ret, 0) << TVMGetLastError()\<close>, which reads the last error after the call.
\<close>

definition lambda_body :: "extern \<Rightarrow> addr \<Rightarrow> TVMArgs \<Rightarrow> host \<Rightarrow> (error + unit) \<times> host" where
  "lambda_body x faddr args h =
     (let (ret, h1) = call_faddr x faddr (values args) (type_codes args) (num_args args) h
      in if ret \<noteq> 0 then (Inl (CheckFailed ''ret == 0'' (last_error h1)), h1)
         else (Inr (), h1))"

text \<open>Invoking a \<open>PackedFunc\<close>: an empty one throws \<open>std::bad_function_call\<close>.\<close>

fun CallPacked :: "extern \<Rightarrow> PackedFunc \<Rightarrow> TVMArgs \<Rightarrow> host \<Rightarrow> (error + unit) \<times> host" where
  "CallPacked x PackedFunc_empty args h = (Inl BadFunctionCall, h)"
| "CallPacked x (PackedFunc_lambda faddr sptr_to_self) args h = lambda_body x faddr args h"

subsection \<open>Emission\<close>

text \<open>
  Lines 62 to 85. Opening \<open>dest\<close> creates or truncates the file; the \<open>CHECK_EQ\<close> on the
  error code of the open comes before the format is looked at. \<open>addPassesToEmitFile\<close>
  returns true when the target cannot emit the file type. The message of the last branch
  streams the argument \<open>format\<close>, not the resolved \<open>fmt\<close>. What is written reaches the file
  at the latest with \<open>dest.close()\<close>; the model stores it at once.
\<close>

definition SaveToFile :: "extern \<Rightarrow> process \<Rightarrow> string \<Rightarrow> string \<Rightarrow> (error + unit) \<times> process" where
  "SaveToFile x s file_name format =
     (let fmt = GetFileFormat x file_name format;
          (ecode_value, ecode_message) = open_ecode x file_name
      in if ecode_value \<noteq> 0 then
           (Inl (CheckFailed ''ecode.value() == 0''
                  (''Cannot open file: '' @ file_name @ '' '' @ ecode_message)), s)
         else
           let s1 = s\<lparr>files := (files s)(file_name \<mapsto> [])\<rparr>
           in if fmt = ''o'' \<or> fmt = ''obj'' then
                (if tm s1 = nullptr then (Inl (CheckFailed ''tm_'' []), s1)
                 else if addPassesToEmitFile x (tm s1) then
                   (Inl (CheckFailed
                          ''tm_->addPassesToEmitFile( pass, dest, llvm::TargetMachine::CGFT_ObjectFile) == 0''
                          ''Cannot emit target CGFT_ObjectFile''), s1)
                 else if mptr s1 = nullptr then (Inl NullDereference, s1)
                 else (Inr (), s1\<lparr>files := (files s1)(file_name \<mapsto> emit_object x (tm s1) (mptr s1))\<rparr>))
              else if fmt = ''ll'' then
                (if mptr s1 = nullptr then (Inl NullDereference, s1)
                 else (Inr (), s1\<lparr>files := (files s1)(file_name \<mapsto> print x (mptr s1))\<rparr>))
              else if fmt = ''bc'' then
                (if mptr s1 = nullptr then (Inl NullDereference, s1)
                 else (Inr (), s1\<lparr>files := (files s1)(file_name \<mapsto> WriteBitcodeToFile x (mptr s1))\<rparr>))
              else
                (Inl (LogFatal (''Do not know how to save file '' @ file_name
                                @ '' with format='' @ [CHR 0x27] @ format @ [CHR 0x27])), s1))"

text \<open>Lines 87 to 89.\<close>

definition SaveToBinary :: "process \<Rightarrow> (error + unit) \<times> process" where
  "SaveToBinary s = (Inl (LogFatal ''LLVMModule: SaveToBinary not supported''), s)"

text \<open>Lines 32 to 34.\<close>

definition type_key :: string where
  "type_key = ''llvm''"

text \<open>Lines 91 to 97. The argument \<open>format\<close> does not occur in the body.\<close>

definition GetSource :: "extern \<Rightarrow> process \<Rightarrow> string \<Rightarrow> (error + string) \<times> process" where
  "GetSource x s format =
     (if mptr s = nullptr then (Inl (CheckFailed ''mptr_ != nullptr'' []), s)
      else (Inr (print x (mptr s)), s))"

subsection \<open>Initialisation and destruction\<close>

text \<open>
  Lines 99 to 112. \<open>InitializeLLVM()\<close> registers the LLVM targets once per process and
  leaves the node alone. The code generator is local to the call; what reaches it is the list of
  calls made on it, and \<open>Finish\<close> turns that list into the module. Assigning to the
  \<open>unique_ptr\<close> \<open>module_\<close> deletes a module it still owned.
\<close>

definition Init :: "extern \<Rightarrow> process \<Rightarrow> LoweredFunc list \<Rightarrow> string \<Rightarrow> (error + unit) \<times> process" where
  "Init x s funcs target =
     (let (tm', triple) = GetLLVMTarget x target;
          s1 = s\<lparr>target_triple := triple, tm := tm'\<rparr>
      in if length funcs = 0 then (Inl (CheckFailed ''funcs.size() != 0U'' []), s1)
         else
           let s2 = s1\<lparr>ctx := make_shared_LLVMContext x\<rparr>;
               cg = [cg_Init (name (funcs ! 0)) target (ctx s2)];
               cg1 = foldl (\<lambda>calls f. calls @ [cg_AddFunction f]) cg funcs;
               cg2 = cg1 @ [cg_AddMainFunction (name (funcs ! 0))];
               m = Finish x cg2;
               s3 = (if module s2 \<noteq> nullptr
                     then s2\<lparr>trace := trace s2 @ [Ev_delete_Module (module s2)]\<rparr> else s2)
           in (Inr (), s3\<lparr>module := m, mptr := m\<rparr>))"

text \<open>Lines 157 to 162, the body registered as \<open>codegen.build_llvm\<close>.\<close>

definition build_llvm ::
  "extern \<Rightarrow> addr \<Rightarrow> host \<Rightarrow> (string \<rightharpoonup> string) \<Rightarrow> LoweredFunc list \<Rightarrow> string
   \<Rightarrow> (error + unit) \<times> process" where
  "build_llvm x self h fs funcs target = Init x (new_LLVMModuleNode self h fs) funcs target"

text \<open>Lines 24 to 30, the destructor \<open>~LLVMModuleNode\<close>.\<close>

definition destroy_LLVMModuleNode :: "extern \<Rightarrow> process \<Rightarrow> process" where
  "destroy_LLVMModuleNode x s =
     (let s1 = (if module s \<noteq> nullptr
                then s\<lparr>module := nullptr, trace := trace s @ [Ev_delete_Module (module s)]\<rparr>
                else s)
      in if ee s1 \<noteq> nullptr then
           let s2 = s1\<lparr>host := runStaticConstructorsDestructors x (ee s1) True (host s1),
                        trace := trace s1 @ [Ev_runStaticConstructorsDestructors (ee s1) True]\<rparr>
           in s2\<lparr>trace := trace s2 @ [Ev_delete_ExecutionEngine (ee s2)]\<rparr>
         else s1)"

subsection \<open>Several threads in \<open>GetFunction\<close>\<close>

text \<open>
  Each thread is at one of the statements of \<open>GetFunction\<close> and of the \<open>LazyInitJIT\<close> it
  calls, named by their line. A step of a thread executes the statement it is at. Taking the
  mutex is a step that a thread can only make when the mutex is free; the statements between
  taking the mutex and the end of the guard's scope are one step, which
  releases the mutex. The reads of \<open>ee_\<close> at lines 48 and 116 are made without the mutex.
  Interleavings of these steps are a subset of the executions of the C++ program.
\<close>

datatype pc =
    GetFunction_48    \<comment> \<open>\<open>if (ee_ == nullptr)\<close>\<close>
  | LazyInitJIT_116   \<comment> \<open>\<open>CHECK(ee_ == nullptr)\<close>\<close>
  | LazyInitJIT_117   \<comment> \<open>\<open>lock_guard lock(mutex_)\<close>\<close>
  | LazyInitJIT_118   \<comment> \<open>lines 118 to 139, then the guard releases the mutex\<close>
  | GetFunction_49    \<comment> \<open>\<open>lock_guard lock(mutex_)\<close>\<close>
  | GetFunction_50    \<comment> \<open>lines 50 to 59, then the guard releases the mutex\<close>
  | Returned PackedFunc
  | Thrown error

record thread =
  at :: pc
  arg_name :: string
  arg_sptr :: addr

record system =
  node :: process
  mutex :: "nat option"   \<comment> \<open>the thread that holds \<open>mutex_\<close>\<close>
  threads :: "thread list"

definition step :: "extern \<Rightarrow> nat \<Rightarrow> system \<Rightarrow> system" where
  "step x t sys =
     (if length (threads sys) \<le> t then sys
      else
        let th = threads sys ! t;
            s = node sys;
            goto = (\<lambda>p. sys\<lparr>threads := (threads sys)[t := th\<lparr>at := p\<rparr>]\<rparr>)
        in case at th of
             GetFunction_48 \<Rightarrow>
               if ee s = nullptr then goto LazyInitJIT_116 else goto GetFunction_49
           | LazyInitJIT_116 \<Rightarrow>
               if ee s \<noteq> nullptr then goto (Thrown (CheckFailed ''ee_ == nullptr'' []))
               else goto LazyInitJIT_117
           | LazyInitJIT_117 \<Rightarrow>
               if mutex sys = None then (goto LazyInitJIT_118)\<lparr>mutex := Some t\<rparr> else sys
           | LazyInitJIT_118 \<Rightarrow>
               (case LazyInitJIT_locked x s of
                  (Inl e, s1) \<Rightarrow> (goto (Thrown e))\<lparr>node := s1, mutex := None\<rparr>
                | (Inr _, s1) \<Rightarrow> (goto GetFunction_49)\<lparr>node := s1, mutex := None\<rparr>)
           | GetFunction_49 \<Rightarrow>
               if mutex sys = None then (goto GetFunction_50)\<lparr>mutex := Some t\<rparr> else sys
           | GetFunction_50 \<Rightarrow>
               (case GetFunction_locked x s (arg_name th) (arg_sptr th) of
                  (Inl e, s1) \<Rightarrow> (goto (Thrown e))\<lparr>node := s1, mutex := None\<rparr>
                | (Inr f, s1) \<Rightarrow> (goto (Returned f))\<lparr>node := s1, mutex := None\<rparr>)
           | Returned f \<Rightarrow> sys
           | Thrown e \<Rightarrow> sys)"

text \<open>A schedule is the list of the threads that step, in order.\<close>

fun run :: "extern \<Rightarrow> nat list \<Rightarrow> system \<Rightarrow> system" where
  "run x [] sys = sys"
| "run x (t # ts) sys = run x ts (step x t sys)"

text \<open>A system of one thread.\<close>

definition solo :: "pc \<Rightarrow> string \<Rightarrow> addr \<Rightarrow> process \<Rightarrow> nat option \<Rightarrow> system" where
  "solo p nm sp s m = \<lparr>node = s, mutex = m, threads = [\<lparr>at = p, arg_name = nm, arg_sptr = sp\<rparr>]\<rparr>"

text \<open>The number of \<open>builder.create\<close> calls in the trace.\<close>

fun is_create :: "event \<Rightarrow> bool" where
  "is_create (Ev_create m t e) = True"
| "is_create _ = False"

definition constructions :: "process \<Rightarrow> nat" where
  "constructions s = length (filter is_create (trace s))"

subsection \<open>A concrete set of collaborators\<close>

text \<open>
  One module at address 40 whose only exported function \<open>f\<close> is at address 100 and whose
  context slot is at address 200; the engine is at address 50. The function \<open>f\<close> accepts one
  argument and reports any other count as an error. The path \<open>/nonexistent/out\<close> cannot
  be opened. \<open>GetFileFormat\<close> takes the explicit format, or else the suffix of the path.
\<close>

definition demo :: extern where
  "demo =
     \<lparr>GetFileFormat = (\<lambda>file_name format.
         if format = [] then rev (takeWhile (\<lambda>c. c \<noteq> CHR ''.'') (rev file_name)) else format),
      tvm_module_ctx = ''__tvm_module_ctx'',
      GetLLVMTarget = (\<lambda>target. (20, target)),
      make_shared_LLVMContext = 30,
      Finish = (\<lambda>calls. 40),
      getTargetTriple = (\<lambda>m. ''x86_64-pc-linux-gnu''),
      getDataLayout = (\<lambda>m. 1),
      print = (\<lambda>m. ''; ModuleID''),
      WriteBitcodeToFile = (\<lambda>m. ''BC''),
      selectTarget = (\<lambda>m. if m = 0 then 0 else 21),
      create = (\<lambda>m t. if m = 0 then 0 else 50),
      createDataLayout = (\<lambda>t. if t = 21 then 1 else 2),
      addPassesToEmitFile = (\<lambda>t. False),
      emit_object = (\<lambda>t m. ''ELF''),
      layout_eq = (\<lambda>a b. a = b),
      getStringRepresentation = (\<lambda>d. if d = 1 then ''e-m:e-i64:64'' else ''E-m:e''),
      getFunctionAddress = (\<lambda>e nm. if nm = ''f'' then 100 else 0),
      getGlobalValueAddress = (\<lambda>e nm. if nm = ''__tvm_module_ctx'' then 200 else 0),
      runStaticConstructorsDestructors = (\<lambda>e d h. h),
      open_ecode = (\<lambda>p. if p = ''/nonexistent/out'' then (2, ''No such file or directory'')
                        else (0, ''Success'')),
      call_faddr = (\<lambda>fa v t n h. if n = 1 then (0, h) else (- 1, h\<lparr>last_error := ''bad arity''\<rparr>))\<rparr>"

definition demo_host :: host where
  "demo_host = \<lparr>memory = (\<lambda>a. 0), last_error = []\<rparr>"

definition demo_funcs :: "LoweredFunc list" where
  "demo_funcs = [\<lparr>name = ''f'', body = 1\<rparr>, \<lparr>name = ''g'', body = 2\<rparr>]"

text \<open>The node at address 10 after \<open>Init\<close> on the two functions, written out.\<close>

definition demo_node :: process where
  "demo_node =
     \<lparr>target_triple = ''llvm'', ee = nullptr, mptr = 40, tm = 20, module = 40, ctx = 30,
      this = 10, host = demo_host, files = Map.empty, trace = []\<rparr>"

text \<open>The same node once the engine has been built from it.\<close>

definition demo_built :: process where
  "demo_built =
     \<lparr>target_triple = ''llvm'', ee = 50, mptr = 40, tm = 20, module = nullptr, ctx = 30,
      this = 10, host = \<lparr>memory = (\<lambda>a. if a = 200 then 10 else 0), last_error = []\<rparr>,
      files = Map.empty,
      trace = [Ev_create 40 21 50, Ev_runStaticConstructorsDestructors 50 False, Ev_store 200 10]\<rparr>"

text \<open>Variants: a target machine with another data layout; a module without the context slot.\<close>

definition demo_mismatch :: extern where
  "demo_mismatch = demo\<lparr>createDataLayout := (\<lambda>t. 2)\<rparr>"

definition demo_noslot :: extern where
  "demo_noslot = demo\<lparr>getGlobalValueAddress := (\<lambda>e nm. 0)\<rparr>"

text \<open>Two threads that have both just entered \<open>GetFunction("f", sptr)\<close> on the fresh node.\<close>

definition two_callers :: system where
  "two_callers =
     \<lparr>node = demo_node, mutex = None,
      threads = [\<lparr>at = GetFunction_48, arg_name = ''f'', arg_sptr = 10\<rparr>,
                 \<lparr>at = GetFunction_48, arg_name = ''f'', arg_sptr = 10\<rparr>]\<rparr>"

section \<open>Properties\<close>

subsection \<open>Auxiliary facts\<close>

lemma LazyInitJIT_locked_Inr_ee:
  "LazyInitJIT_locked x s = (Inr u, s1) \<Longrightarrow> ee s1 \<noteq> nullptr"
  by (auto simp: LazyInitJIT_locked_def Let_def split: if_splits)

lemma LazyInitJIT_Inr_ee:
  "LazyInitJIT x s = (Inr u, s1) \<Longrightarrow> ee s1 \<noteq> nullptr"
  by (auto simp: LazyInitJIT_def dest: LazyInitJIT_locked_Inr_ee split: if_splits)

lemma ensure_ee_Inr:
  "ensure_ee x s = (Inr u, s1) \<Longrightarrow> ee s1 \<noteq> nullptr"
  by (auto simp: ensure_ee_def dest: LazyInitJIT_Inr_ee split: if_splits)

text \<open>No failure of the construction can be mistaken for the check of line 41.\<close>

lemma LazyInitJIT_locked_not_faddr:
  "fst (LazyInitJIT_locked x s) \<noteq> Inl (CheckFailed ''faddr != nullptr'' m)"
  by (simp add: LazyInitJIT_locked_def Let_def)

lemma ensure_ee_not_faddr:
  "fst (ensure_ee x s) \<noteq> Inl (CheckFailed ''faddr != nullptr'' m)"
  by (simp add: ensure_ee_def LazyInitJIT_def LazyInitJIT_locked_not_faddr)

lemma GetFunction_Inr:
  assumes "GetFunction x s nm sptr = (Inr f, s1)"
  shows "ee s1 \<noteq> nullptr \<and>
         f = (if getFunctionAddress x (ee s1) nm = nullptr then PackedFunc_empty
              else PackedFunc_lambda (getFunctionAddress x (ee s1) nm) sptr)"
proof (cases "ensure_ee x s")
  case (Pair r s0)
  show ?thesis
  proof (cases r)
    case (Inl e)
    with Pair assms show ?thesis by (simp add: GetFunction_def)
  next
    case (Inr u)
    with Pair have e: "ee s0 \<noteq> nullptr" by (auto dest: ensure_ee_Inr)
    from Pair Inr assms have "GetFunction_locked x s0 nm sptr = (Inr f, s1)"
      by (simp add: GetFunction_def)
    with e show ?thesis
      by (auto simp: GetFunction_locked_def Let_def split: if_splits)
  qed
qed

lemma foldl_AddFunction:
  "foldl (\<lambda>calls f. calls @ [cg_AddFunction f]) cg funcs = cg @ map cg_AddFunction funcs"
  by (induction funcs arbitrary: cg) simp_all

text \<open>The concrete collaborators, evaluated.\<close>

lemma demo_Init:
  "build_llvm demo 10 demo_host Map.empty demo_funcs ''llvm'' = (Inr (), demo_node)"
  by (simp add: build_llvm_def Init_def new_LLVMModuleNode_def demo_def demo_funcs_def
        demo_node_def nullptr_def Let_def)

lemma demo_LazyInitJIT: "LazyInitJIT demo demo_node = (Inr (), demo_built)"
  by (simp add: LazyInitJIT_def LazyInitJIT_locked_def demo_def demo_node_def demo_built_def
        demo_host_def nullptr_def Let_def fun_eq_iff)

lemma demo_ensure_ee: "ensure_ee demo demo_node = (Inr (), demo_built)"
  by (simp add: ensure_ee_def demo_LazyInitJIT) (simp add: demo_node_def nullptr_def)

lemma demo_GetFunction_f:
  "GetFunction demo demo_node ''f'' 10 = (Inr (PackedFunc_lambda 100 10), demo_built)"
  by (simp add: GetFunction_def demo_ensure_ee GetFunction_locked_def)
     (simp add: demo_built_def demo_def nullptr_def)

subsection \<open>One thread: the engine is built on the first lookup and never again\<close>

lemma GetFunction_with_engine:
  "ee s \<noteq> nullptr \<Longrightarrow> snd (GetFunction x s nm sptr) = s"
  by (simp add: GetFunction_def ensure_ee_def GetFunction_locked_def Let_def)

lemma PreCompile_with_engine:
  "ee s \<noteq> nullptr \<Longrightarrow> snd (PreCompile x s nm c) = s"
  by (simp add: PreCompile_def ensure_ee_def PreCompile_locked_def Let_def)

lemma LazyInitJIT_constructions:
  "LazyInitJIT x s = (Inr u, s1) \<Longrightarrow> constructions s1 = Suc (constructions s)"
  by (auto simp: LazyInitJIT_def LazyInitJIT_locked_def constructions_def Let_def
           split: if_splits)

lemma GetFunction_first_call:
  assumes "ee s = nullptr" and "GetFunction x s nm sptr = (Inr f, s1)"
  shows "constructions s1 = Suc (constructions s) \<and> snd (GetFunction x s1 nm' sptr') = s1"
proof (cases "LazyInitJIT x s")
  case (Pair r s0)
  show ?thesis
  proof (cases r)
    case (Inl e)
    with Pair assms show ?thesis by (simp add: GetFunction_def ensure_ee_def)
  next
    case (Inr u)
    with Pair assms have "GetFunction_locked x s0 nm sptr = (Inr f, s1)"
      by (simp add: GetFunction_def ensure_ee_def)
    then have eq: "s1 = s0"
      by (auto simp: GetFunction_locked_def Let_def split: if_splits)
    from Pair Inr have "constructions s0 = Suc (constructions s)" and "ee s0 \<noteq> nullptr"
      by (auto dest: LazyInitJIT_constructions LazyInitJIT_Inr_ee)
    with eq show ?thesis by (simp add: GetFunction_with_engine)
  qed
qed

text \<open>An engine is only created after the two data layouts compared equal.\<close>

lemma create_after_layout_check:
  assumes "constructions (snd (LazyInitJIT x s)) \<noteq> constructions s"
  shows "layout_eq x (createDataLayout x (selectTarget x (module s))) (getDataLayout x (mptr s))"
  using assms
  by (auto simp: LazyInitJIT_def LazyInitJIT_locked_def constructions_def Let_def
           split: if_splits)

subsection \<open>One thread in the interleaved model does what \<open>GetFunction\<close> does\<close>

lemma step_solo_48:
  "step x 0 (solo GetFunction_48 nm sp s m) =
     solo (if ee s = nullptr then LazyInitJIT_116 else GetFunction_49) nm sp s m"
  by (simp add: step_def solo_def)

lemma step_solo_116:
  "step x 0 (solo LazyInitJIT_116 nm sp s m) =
     solo (if ee s \<noteq> nullptr then Thrown (CheckFailed ''ee_ == nullptr'' [])
           else LazyInitJIT_117) nm sp s m"
  by (simp add: step_def solo_def)

lemma step_solo_117:
  "step x 0 (solo LazyInitJIT_117 nm sp s None) = solo LazyInitJIT_118 nm sp s (Some 0)"
  by (simp add: step_def solo_def)

lemma step_solo_118:
  "step x 0 (solo LazyInitJIT_118 nm sp s m) =
     solo (case fst (LazyInitJIT_locked x s) of Inl e \<Rightarrow> Thrown e | Inr u \<Rightarrow> GetFunction_49)
       nm sp (snd (LazyInitJIT_locked x s)) None"
  by (cases "LazyInitJIT_locked x s"; cases "fst (LazyInitJIT_locked x s)")
     (simp_all add: step_def solo_def)

lemma step_solo_49:
  "step x 0 (solo GetFunction_49 nm sp s None) = solo GetFunction_50 nm sp s (Some 0)"
  by (simp add: step_def solo_def)

lemma step_solo_50:
  "step x 0 (solo GetFunction_50 nm sp s m) =
     solo (case fst (GetFunction_locked x s nm sp) of Inl e \<Rightarrow> Thrown e | Inr f \<Rightarrow> Returned f)
       nm sp (snd (GetFunction_locked x s nm sp)) None"
  by (cases "GetFunction_locked x s nm sp"; cases "fst (GetFunction_locked x s nm sp)")
     (simp_all add: step_def solo_def)

lemma step_solo_done:
  "step x 0 (solo (case r of Inl e \<Rightarrow> Thrown e | Inr f \<Rightarrow> Returned f) nm sp s m) =
     solo (case r of Inl e \<Rightarrow> Thrown e | Inr f \<Rightarrow> Returned f) nm sp s m"
  by (cases r) (simp_all add: step_def solo_def)

lemma step_solo_Thrown:
  "step x 0 (solo (Thrown e) nm sp s m) = solo (Thrown e) nm sp s m"
  by (simp add: step_def solo_def)

lemmas step_solo = step_solo_48 step_solo_116 step_solo_117 step_solo_118 step_solo_49
  step_solo_50 step_solo_done step_solo_Thrown

lemma solo_GetFunction:
  "run x [0, 0, 0, 0, 0, 0] (solo GetFunction_48 nm sp s None) =
     solo (case fst (GetFunction x s nm sp) of Inl e \<Rightarrow> Thrown e | Inr f \<Rightarrow> Returned f)
       nm sp (snd (GetFunction x s nm sp)) None"
proof (cases "ee s = nullptr")
  case False
  then show ?thesis
    by (simp add: step_solo GetFunction_def ensure_ee_def split_beta)
next
  case True
  show ?thesis
  proof (cases "fst (LazyInitJIT_locked x s)")
    case (Inl e)
    with True show ?thesis
      by (simp add: step_solo GetFunction_def ensure_ee_def LazyInitJIT_def split_beta)
  next
    case (Inr u)
    with True show ?thesis
      by (simp add: step_solo GetFunction_def ensure_ee_def LazyInitJIT_def split_beta)
  qed
qed

subsection \<open>Two threads: the test of line 48 can be overtaken\<close>

text \<open>
  For any collaborators and any node on which the construction succeeds: when thread 1 has
  executed line 48, thread 0 then runs its whole call, and thread 1 goes on, thread 1 fails
  the \<open>CHECK\<close> of line 116.
\<close>

lemma overtaken_caller_fails:
  assumes "ee s = nullptr" and "LazyInitJIT_locked x s = (Inr (), s1)"
  shows "at (threads (run x [1, 0, 0, 0, 0, 0, 0, 1]
            \<lparr>node = s, mutex = None,
             threads = [\<lparr>at = GetFunction_48, arg_name = n0, arg_sptr = p0\<rparr>,
                        \<lparr>at = GetFunction_48, arg_name = n1, arg_sptr = p1\<rparr>]\<rparr>) ! 1) =
         Thrown (CheckFailed ''ee_ == nullptr'' [])"
proof -
  have e: "ee s1 \<noteq> nullptr" using assms(2) by (rule LazyInitJIT_locked_Inr_ee)
  then have g: "snd (GetFunction_locked x s1 n0 p0) = s1"
    by (simp add: GetFunction_locked_def Let_def)
  show ?thesis
    using assms e g
    by (cases "GetFunction_locked x s1 n0 p0"; cases "fst (GetFunction_locked x s1 n0 p0)")
       (simp_all add: step_def Let_def)
qed

subsection \<open>Concurrent first calls\<close>

text \<open>
  Claim C1: the engine is built on the first \<open>GetFunction\<close> or \<open>PreCompile\<close>, at most once,
  and safely under threads: of several threads that call \<open>GetFunction\<close> before the engine
  exists exactly one builds it, the others wait or see the engine, and every caller gets a
  handle or the empty result.

  The code tests \<open>ee_\<close> at line 48 and again at line 116 before it takes \<open>mutex_\<close> at line
  117, and does not test it once the mutex is held. With two callers of \<open>GetFunction("f")\<close>
  on a fresh node: when thread 1 executes line 48, thread 0 then runs its whole call, and
  thread 1 goes on, thread 1 fails the \<open>CHECK\<close> of line 116 and its caller gets the fatal
  error, no handle. When both threads pass line 116 before either takes the mutex, thread 1
  takes it after thread 0 has built the engine and stands at line 118 with \<open>ee_\<close> set and
  \<open>module_\<close> moved away, about to run the construction a second time.
\<close>

theorem GetFunction_race:
  "map at (threads (run demo [1, 0, 0, 0, 0, 0, 0, 1] two_callers)) =
     [Returned (PackedFunc_lambda 100 10), Thrown (CheckFailed ''ee_ == nullptr'' [])] \<and>
   at (threads (run demo [0, 1, 0, 1, 0, 0, 1] two_callers) ! 1) = LazyInitJIT_118 \<and>
   mutex (run demo [0, 1, 0, 1, 0, 0, 1] two_callers) = Some 1 \<and>
   ee (node (run demo [0, 1, 0, 1, 0, 0, 1] two_callers)) = 50 \<and>
   module (node (run demo [0, 1, 0, 1, 0, 0, 1] two_callers)) = nullptr"
  by (simp add: two_callers_def step_def demo_def demo_node_def nullptr_def Let_def
        LazyInitJIT_locked_def GetFunction_locked_def)

subsection \<open>The data layout check\<close>

text \<open>
  Claim C2: during the lazy construction the data layout of the target machine that the
  builder selected is compared with the data layout of the module before the engine is
  created; when they differ the call fails fatally and the message holds the string
  representation of both layouts. The state left behind has no engine and no
  \<open>builder.create\<close> in its trace.
\<close>

theorem LazyInitJIT_layout_mismatch:
  assumes "ee s = nullptr" and "mptr s \<noteq> nullptr"
    and "selectTarget x (module s) = t" and "t \<noteq> nullptr"
    and "\<not> layout_eq x (createDataLayout x t) (getDataLayout x (mptr s))"
    and "msg = ''Data layout mismatch between module(''
               @ getStringRepresentation x (getDataLayout x (mptr s))
               @ '') and ExecutionEngine (''
               @ getStringRepresentation x (createDataLayout x t) @ '')''"
  shows "LazyInitJIT x s =
           (Inl (CheckFailed ''layout == mptr_->getDataLayout()'' msg), s\<lparr>module := nullptr\<rparr>) \<and>
         sublist (getStringRepresentation x (getDataLayout x (mptr s))) msg \<and>
         sublist (getStringRepresentation x (createDataLayout x t)) msg \<and>
         ee (snd (LazyInitJIT x s)) = nullptr \<and>
         constructions (snd (LazyInitJIT x s)) = constructions s"
proof -
  have run: "LazyInitJIT x s =
      (Inl (CheckFailed ''layout == mptr_->getDataLayout()'' msg), s\<lparr>module := nullptr\<rparr>)"
    using assms by (simp add: LazyInitJIT_def LazyInitJIT_locked_def Let_def)
  have m: "sublist (getStringRepresentation x (getDataLayout x (mptr s))) msg"
    unfolding assms(6) sublist_def by blast
  have e: "sublist (getStringRepresentation x (createDataLayout x t)) msg"
    unfolding assms(6) sublist_def
    by (rule exI [of _ "''Data layout mismatch between module(''
          @ getStringRepresentation x (getDataLayout x (mptr s))
          @ '') and ExecutionEngine (''"], rule exI [of _ "'')''"]) simp
  from run m e assms(1) show ?thesis by (simp add: constructions_def)
qed

theorem LazyInitJIT_layout_mismatch_witness:
  "ee demo_node = nullptr \<and> mptr demo_node \<noteq> nullptr \<and>
   selectTarget demo_mismatch (module demo_node) = 21 \<and> (21::nat) \<noteq> nullptr \<and>
   \<not> layout_eq demo_mismatch (createDataLayout demo_mismatch 21)
        (getDataLayout demo_mismatch (mptr demo_node)) \<and>
   LazyInitJIT demo_mismatch demo_node =
     (Inl (CheckFailed ''layout == mptr_->getDataLayout()''
            ''Data layout mismatch between module(e-m:e-i64:64) and ExecutionEngine (E-m:e)''),
      demo_node\<lparr>module := nullptr\<rparr>) \<and>
   constructions (snd (LazyInitJIT demo_mismatch demo_node)) = 0"
proof -
  have h: "ee demo_node = nullptr" "mptr demo_node \<noteq> nullptr"
    "selectTarget demo_mismatch (module demo_node) = 21" "(21::nat) \<noteq> nullptr"
    "\<not> layout_eq demo_mismatch (createDataLayout demo_mismatch 21)
         (getDataLayout demo_mismatch (mptr demo_node))"
    by (simp_all add: demo_mismatch_def demo_def demo_node_def nullptr_def)
  from LazyInitJIT_layout_mismatch [OF h refl] h show ?thesis
    by (simp add: demo_mismatch_def demo_def demo_node_def constructions_def)
qed

subsection \<open>Looking a symbol up\<close>

text \<open>
  Claim C3: for a name that the engine cannot resolve to an address, \<open>GetFunction\<close> returns
  the empty \<open>PackedFunc\<close> and does not fail; for a name that resolves, it returns the closure
  over the resolved address and the shared pointer to the module. The engine is the one
  that is there after line 48, already built or built by this call.
\<close>

theorem GetFunction_result:
  assumes "ensure_ee x s = (Inr (), s1)"
  shows "ee s1 \<noteq> nullptr \<and>
         GetFunction x s nm sptr =
           (Inr (if getFunctionAddress x (ee s1) nm = nullptr then PackedFunc_empty
                 else PackedFunc_lambda (getFunctionAddress x (ee s1) nm) sptr), s1)"
proof -
  have e: "ee s1 \<noteq> nullptr" using assms by (rule ensure_ee_Inr)
  have "GetFunction x s nm sptr = GetFunction_locked x s1 nm sptr"
    unfolding GetFunction_def using assms by simp
  with e show ?thesis by (simp add: GetFunction_locked_def Let_def)
qed

theorem GetFunction_result_witness:
  "ensure_ee demo demo_node = (Inr (), demo_built) \<and>
   GetFunction demo demo_node ''nonexistent'' 10 = (Inr PackedFunc_empty, demo_built) \<and>
   GetFunction demo demo_node ''f'' 10 = (Inr (PackedFunc_lambda 100 10), demo_built) \<and>
   ensure_ee demo demo_built = (Inr (), demo_built) \<and>
   GetFunction demo demo_built ''f'' 10 = (Inr (PackedFunc_lambda 100 10), demo_built)"
proof -
  have h: "ensure_ee demo demo_node = (Inr (), demo_built)" by (rule demo_ensure_ee)
  have k: "ensure_ee demo demo_built = (Inr (), demo_built)"
    by (simp add: ensure_ee_def demo_built_def nullptr_def)
  from GetFunction_result [OF h, of "''nonexistent''" 10] GetFunction_result [OF h, of "''f''" 10]
    GetFunction_result [OF k, of "''f''" 10] h k
  show ?thesis by (simp add: demo_def demo_built_def nullptr_def)
qed

text \<open>
  Claim C4: \<open>PreCompile\<close> fails at its assertion (line 41) exactly when the symbol does not
  resolve to a non-null address, and completes, returning nothing, exactly when it does.
  Resolving means that the engine is there after line 37 and gives the name a non-null
  address.
\<close>

theorem PreCompile_fatal_iff:
  "(fst (PreCompile x s nm c) =
      Inl (CheckFailed ''faddr != nullptr'' (''Failed to Precompile function '' @ nm))
    \<longleftrightarrow> (\<exists>s1. ensure_ee x s = (Inr (), s1) \<and> getFunctionAddress x (ee s1) nm = nullptr)) \<and>
   (fst (PreCompile x s nm c) = Inr ()
    \<longleftrightarrow> (\<exists>s1. ensure_ee x s = (Inr (), s1) \<and> getFunctionAddress x (ee s1) nm \<noteq> nullptr)) \<and>
   (fst (PreCompile x s nm c) = Inr () \<longleftrightarrow> PreCompile x s nm c = (Inr (), snd (ensure_ee x s)))"
proof (cases "ensure_ee x s")
  case (Pair r s1)
  show ?thesis
  proof (cases r)
    case (Inl e)
    have "e \<noteq> CheckFailed ''faddr != nullptr'' (''Failed to Precompile function '' @ nm)"
      using Pair Inl ensure_ee_not_faddr [of x s "''Failed to Precompile function '' @ nm"]
      by auto
    with Pair Inl show ?thesis by (simp add: PreCompile_def)
  next
    case (Inr u)
    with Pair have "ee s1 \<noteq> nullptr" by (auto dest: ensure_ee_Inr)
    with Pair Inr show ?thesis
      by (simp add: PreCompile_def PreCompile_locked_def Let_def)
  qed
qed

theorem PreCompile_fatal_iff_witness:
  "fst (PreCompile demo demo_node ''nonexistent'' \<lparr>device_type = 1, device_id = 0\<rparr>) =
     Inl (CheckFailed ''faddr != nullptr'' ''Failed to Precompile function nonexistent'') \<and>
   PreCompile demo demo_node ''f'' \<lparr>device_type = 1, device_id = 0\<rparr> = (Inr (), demo_built)"
proof -
  have a: "\<exists>s1. ensure_ee demo demo_node = (Inr (), s1)
             \<and> getFunctionAddress demo (ee s1) ''nonexistent'' = nullptr"
    by (simp add: demo_ensure_ee) (simp add: demo_def nullptr_def)
  have b: "\<exists>s1. ensure_ee demo demo_node = (Inr (), s1)
             \<and> getFunctionAddress demo (ee s1) ''f'' \<noteq> nullptr"
    by (simp add: demo_ensure_ee) (simp add: demo_def nullptr_def)
  from a PreCompile_fatal_iff [of demo demo_node "''nonexistent''" "\<lparr>device_type = 1, device_id = 0\<rparr>"]
  have 1: "fst (PreCompile demo demo_node ''nonexistent'' \<lparr>device_type = 1, device_id = 0\<rparr>) =
     Inl (CheckFailed ''faddr != nullptr'' ''Failed to Precompile function nonexistent'')"
    by simp
  from b PreCompile_fatal_iff [of demo demo_node "''f''" "\<lparr>device_type = 1, device_id = 0\<rparr>"]
  have 2: "PreCompile demo demo_node ''f'' \<lparr>device_type = 1, device_id = 0\<rparr> = (Inr (), demo_built)"
    by (auto simp: demo_ensure_ee)
  from 1 2 show ?thesis by simp
qed

subsection \<open>Invoking a handle\<close>

text \<open>
  Claim C5: when a handle returned by \<open>GetFunction\<close> is invoked and the function behind it
  returns a non-zero status, the closure fails with a message that is the runtime's last
  error string, read after the call; when the status is zero the invocation completes
  without error.
\<close>

theorem handle_status:
  assumes "GetFunction x s nm sptr = (Inr f, s1)"
    and "f \<noteq> PackedFunc_empty"
    and "call_faddr x (getFunctionAddress x (ee s1) nm)
           (values args) (type_codes args) (num_args args) h = (ret, h1)"
  shows "CallPacked x f args h =
           (if ret = 0 then (Inr (), h1)
            else (Inl (CheckFailed ''ret == 0'' (last_error h1)), h1))"
proof -
  from GetFunction_Inr [OF assms(1)] assms(2)
  have "f = PackedFunc_lambda (getFunctionAddress x (ee s1) nm) sptr"
    by (simp split: if_splits)
  with assms(3) show ?thesis by (simp add: lambda_body_def)
qed

theorem handle_status_witness:
  "GetFunction demo demo_node ''f'' 10 = (Inr (PackedFunc_lambda 100 10), demo_built) \<and>
   PackedFunc_lambda 100 10 \<noteq> PackedFunc_empty \<and>
   call_faddr demo (getFunctionAddress demo (ee demo_built) ''f'') 300 400 2 demo_host =
     (- 1, demo_host\<lparr>last_error := ''bad arity''\<rparr>) \<and>
   CallPacked demo (PackedFunc_lambda 100 10) \<lparr>values = 300, type_codes = 400, num_args = 2\<rparr> demo_host =
     (Inl (CheckFailed ''ret == 0'' ''bad arity''), demo_host\<lparr>last_error := ''bad arity''\<rparr>) \<and>
   call_faddr demo (getFunctionAddress demo (ee demo_built) ''f'') 300 400 1 demo_host =
     (0, demo_host) \<and>
   CallPacked demo (PackedFunc_lambda 100 10) \<lparr>values = 300, type_codes = 400, num_args = 1\<rparr> demo_host =
     (Inr (), demo_host)"
proof -
  have g: "GetFunction demo demo_node ''f'' 10 = (Inr (PackedFunc_lambda 100 10), demo_built)"
    by (rule demo_GetFunction_f)
  have n: "PackedFunc_lambda 100 10 \<noteq> PackedFunc_empty" by simp
  have c2: "call_faddr demo (getFunctionAddress demo (ee demo_built) ''f'')
      (values \<lparr>values = 300, type_codes = 400, num_args = 2\<rparr>)
      (type_codes \<lparr>values = 300, type_codes = 400, num_args = 2\<rparr>)
      (num_args \<lparr>values = 300, type_codes = 400, num_args = 2\<rparr>) demo_host =
        (- 1, demo_host\<lparr>last_error := ''bad arity''\<rparr>)"
    by (simp add: demo_def)
  have c1: "call_faddr demo (getFunctionAddress demo (ee demo_built) ''f'')
      (values \<lparr>values = 300, type_codes = 400, num_args = 1\<rparr>)
      (type_codes \<lparr>values = 300, type_codes = 400, num_args = 1\<rparr>)
      (num_args \<lparr>values = 300, type_codes = 400, num_args = 1\<rparr>) demo_host = (0, demo_host)"
    by (simp add: demo_def)
  from handle_status [OF g n c2] handle_status [OF g n c1] g c1 c2
  show ?thesis by (simp add: demo_host_def)
qed

subsection \<open>Saving to a file\<close>

text \<open>
  Claim C6, amended: when the destination can be opened, \<open>SaveToFile\<close> recognises exactly
  the resolved formats \<open>o\<close> and \<open>obj\<close> (object code, for which the target machine must be
  set), \<open>ll\<close> (the printed module) and \<open>bc\<close> (bitcode); every other resolved format is
  fatal, with a message that names the path and the format argument as it was passed. When
  the destination cannot be opened the call fails with the file-open error, which names the
  path and the system's message, whatever the format.
\<close>

theorem SaveToFile_formats:
  assumes "fmt = GetFileFormat x file_name format"
    and "s1 = s\<lparr>files := (files s)(file_name \<mapsto> [])\<rparr>"
    and "msg = ''Do not know how to save file '' @ file_name @ '' with format=''
               @ [CHR 0x27] @ format @ [CHR 0x27]"
  shows "(fst (open_ecode x file_name) \<noteq> 0 \<longrightarrow>
            SaveToFile x s file_name format =
              (Inl (CheckFailed ''ecode.value() == 0''
                     (''Cannot open file: '' @ file_name @ '' '' @ snd (open_ecode x file_name))), s)) \<and>
         (fst (open_ecode x file_name) = 0 \<longrightarrow>
            (fmt \<notin> {''o'', ''obj'', ''ll'', ''bc''} \<longrightarrow>
               SaveToFile x s file_name format = (Inl (LogFatal msg), s1)
               \<and> sublist file_name msg \<and> sublist format msg) \<and>
            (fmt \<in> {''o'', ''obj''} \<and> tm s = nullptr \<longrightarrow>
               SaveToFile x s file_name format = (Inl (CheckFailed ''tm_'' []), s1)) \<and>
            (fmt \<in> {''o'', ''obj''} \<and> tm s \<noteq> nullptr \<and> addPassesToEmitFile x (tm s) \<longrightarrow>
               fst (SaveToFile x s file_name format) =
                 Inl (CheckFailed
                       ''tm_->addPassesToEmitFile( pass, dest, llvm::TargetMachine::CGFT_ObjectFile) == 0''
                       ''Cannot emit target CGFT_ObjectFile'')) \<and>
            (fmt \<in> {''o'', ''obj''} \<and> tm s \<noteq> nullptr \<and> \<not> addPassesToEmitFile x (tm s)
               \<and> mptr s \<noteq> nullptr \<longrightarrow>
               SaveToFile x s file_name format =
                 (Inr (), s\<lparr>files := (files s)(file_name \<mapsto> emit_object x (tm s) (mptr s))\<rparr>)) \<and>
            (fmt = ''ll'' \<and> mptr s \<noteq> nullptr \<longrightarrow>
               SaveToFile x s file_name format =
                 (Inr (), s\<lparr>files := (files s)(file_name \<mapsto> print x (mptr s))\<rparr>)) \<and>
            (fmt = ''bc'' \<and> mptr s \<noteq> nullptr \<longrightarrow>
               SaveToFile x s file_name format =
                 (Inr (), s\<lparr>files := (files s)(file_name \<mapsto> WriteBitcodeToFile x (mptr s))\<rparr>)))"
proof -
  have n1: "sublist file_name msg"
    unfolding assms(3) sublist_def by blast
  have n2: "sublist format msg"
    unfolding assms(3) sublist_def
    by (rule exI [of _ "''Do not know how to save file '' @ file_name @ '' with format='' @ [CHR 0x27]"],
        rule exI [of _ "[CHR 0x27]"]) simp
  show ?thesis
    using n1 n2 unfolding assms(2)
    by (cases "open_ecode x file_name")
       (auto simp: SaveToFile_def Let_def assms(1) assms(3))
qed

theorem SaveToFile_formats_witness:
  "fst (open_ecode demo ''out.xyz'') = 0 \<and>
   GetFileFormat demo ''out.xyz'' [] \<notin> {''o'', ''obj'', ''ll'', ''bc''} \<and>
   SaveToFile demo demo_node ''out.xyz'' [] =
     (Inl (LogFatal (''Do not know how to save file out.xyz with format='' @ [CHR 0x27, CHR 0x27])),
      demo_node\<lparr>files := (files demo_node)(''out.xyz'' \<mapsto> [])\<rparr>) \<and>
   fst (open_ecode demo ''/nonexistent/out'') \<noteq> 0 \<and>
   SaveToFile demo demo_node ''/nonexistent/out'' ''ll'' =
     (Inl (CheckFailed ''ecode.value() == 0''
            ''Cannot open file: /nonexistent/out No such file or directory''), demo_node) \<and>
   GetFileFormat demo ''out.ll'' [] = ''ll'' \<and> mptr demo_node \<noteq> nullptr \<and>
   SaveToFile demo demo_node ''out.ll'' [] =
     (Inr (), demo_node\<lparr>files := (files demo_node)(''out.ll'' \<mapsto> ''; ModuleID'')\<rparr>) \<and>
   SaveToFile demo demo_node ''out'' ''bc'' =
     (Inr (), demo_node\<lparr>files := (files demo_node)(''out'' \<mapsto> ''BC'')\<rparr>) \<and>
   GetFileFormat demo ''out.o'' [] \<in> {''o'', ''obj''} \<and> tm demo_node \<noteq> nullptr \<and>
   \<not> addPassesToEmitFile demo (tm demo_node) \<and>
   SaveToFile demo demo_node ''out.o'' [] =
     (Inr (), demo_node\<lparr>files := (files demo_node)(''out.o'' \<mapsto> ''ELF'')\<rparr>) \<and>
   tm (new_LLVMModuleNode 10 demo_host Map.empty) = nullptr \<and>
   SaveToFile demo (new_LLVMModuleNode 10 demo_host Map.empty) ''out'' ''obj'' =
     (Inl (CheckFailed ''tm_'' []),
      (new_LLVMModuleNode 10 demo_host Map.empty)\<lparr>files := [''out'' \<mapsto> []]\<rparr>)"
proof -
  have h: "fst (open_ecode demo ''out.xyz'') = 0"
    "GetFileFormat demo ''out.xyz'' [] \<notin> {''o'', ''obj'', ''ll'', ''bc''}"
    "fst (open_ecode demo ''/nonexistent/out'') \<noteq> 0"
    "snd (open_ecode demo ''/nonexistent/out'') = ''No such file or directory''"
    "GetFileFormat demo ''out.ll'' [] = ''ll''" "mptr demo_node \<noteq> nullptr"
    "fst (open_ecode demo ''out.ll'') = 0"
    "GetFileFormat demo ''out'' ''bc'' = ''bc''" "fst (open_ecode demo ''out'') = 0"
    "GetFileFormat demo ''out.o'' [] = ''o''" "fst (open_ecode demo ''out.o'') = 0"
    "tm demo_node \<noteq> nullptr" "\<not> addPassesToEmitFile demo (tm demo_node)"
    "tm (new_LLVMModuleNode 10 demo_host Map.empty) = nullptr"
    "GetFileFormat demo ''out'' ''obj'' = ''obj''"
    "emit_object demo (tm demo_node) (mptr demo_node) = ''ELF''"
    "print demo (mptr demo_node) = ''; ModuleID''"
    "WriteBitcodeToFile demo (mptr demo_node) = ''BC''"
    by (simp_all add: demo_def demo_node_def nullptr_def new_LLVMModuleNode_def)
  from SaveToFile_formats [where x = demo and file_name = "''out.xyz''" and format = "[]" and s = demo_node, OF refl refl refl]
    SaveToFile_formats [where x = demo and file_name = "''/nonexistent/out''" and format = "''ll''" and s = demo_node, OF refl refl refl]
    SaveToFile_formats [where x = demo and file_name = "''out.ll''" and format = "[]" and s = demo_node, OF refl refl refl]
    SaveToFile_formats [where x = demo and file_name = "''out''" and format = "''bc''" and s = demo_node, OF refl refl refl]
    SaveToFile_formats [where x = demo and file_name = "''out.o''" and format = "[]" and s = demo_node, OF refl refl refl]
    SaveToFile_formats [where x = demo and file_name = "''out''" and format = "''obj''"
      and s = "new_LLVMModuleNode 10 demo_host Map.empty", OF refl refl refl]
    h
  show ?thesis
    by (simp add: new_LLVMModuleNode_def)
qed

text \<open>
  Claim C6 as stated fails where the destination cannot be opened: the resolved format
  \<open>xyz\<close> is not one of the four, the call is fatal, and the message is that of the failed
  open, which does not hold the format string.
\<close>

theorem SaveToFile_unopenable:
  "GetFileFormat demo ''/nonexistent/out'' ''xyz'' \<notin> {''o'', ''obj'', ''ll'', ''bc''} \<and>
   fst (SaveToFile demo demo_node ''/nonexistent/out'' ''xyz'') =
     Inl (CheckFailed ''ecode.value() == 0''
           ''Cannot open file: /nonexistent/out No such file or directory'') \<and>
   \<not> sublist ''xyz'' ''Cannot open file: /nonexistent/out No such file or directory''"
  by (simp add: SaveToFile_def demo_def Let_def sublist_Cons_right)

subsection \<open>The printed module\<close>

text \<open>
  Claim C10: \<open>GetSource\<close> ignores its format argument: for any two format strings and the
  same state the results are the same, and when the observed module pointer is not null the
  result is the module's printed text.
\<close>

theorem GetSource_ignores_format:
  "GetSource x s f1 = GetSource x s f2 \<and>
   (mptr s \<noteq> nullptr \<longrightarrow> GetSource x s f1 = (Inr (print x (mptr s)), s))"
  by (simp add: GetSource_def)

theorem GetSource_ignores_format_witness:
  "mptr demo_node \<noteq> nullptr \<and>
   GetSource demo demo_node ''ll'' = GetSource demo demo_node ''asm'' \<and>
   GetSource demo demo_node ''ll'' = (Inr ''; ModuleID'', demo_node)"
proof -
  have h: "mptr demo_node \<noteq> nullptr" "print demo (mptr demo_node) = ''; ModuleID''"
    by (simp_all add: demo_node_def demo_def nullptr_def)
  from GetSource_ignores_format [of demo demo_node "''ll''" "''asm''"] h
  show ?thesis by auto
qed

subsection \<open>Initialisation\<close>

text \<open>
  Claim C7: \<open>Init\<close> fails fatally on an empty sequence of function definitions; on a
  sequence of N definitions, N at least 1, it adds all N to the code unit, in order, and
  registers the name of the first as the main function of the unit. The module kept is the
  one the code generator finishes after exactly those calls.
\<close>

theorem Init_funcs:
  "fst (Init x s [] target) = Inl (CheckFailed ''funcs.size() != 0U'' []) \<and>
   (funcs \<noteq> [] \<longrightarrow>
      fst (Init x s funcs target) = Inr () \<and>
      module (snd (Init x s funcs target)) =
        Finish x (cg_Init (name (hd funcs)) target (make_shared_LLVMContext x)
                  # map cg_AddFunction funcs @ [cg_AddMainFunction (name (hd funcs))]) \<and>
      mptr (snd (Init x s funcs target)) = module (snd (Init x s funcs target)))"
  by (cases funcs) (simp_all add: Init_def Let_def foldl_AddFunction split: prod.splits)

theorem Init_funcs_witness:
  "demo_funcs \<noteq> [] \<and>
   fst (Init demo (new_LLVMModuleNode 10 demo_host Map.empty) demo_funcs ''llvm'') = Inr () \<and>
   module (snd (Init demo (new_LLVMModuleNode 10 demo_host Map.empty) demo_funcs ''llvm'')) =
     Finish demo [cg_Init ''f'' ''llvm'' 30,
                  cg_AddFunction \<lparr>name = ''f'', body = 1\<rparr>, cg_AddFunction \<lparr>name = ''g'', body = 2\<rparr>,
                  cg_AddMainFunction ''f'']"
proof -
  have h: "demo_funcs \<noteq> []" by (simp add: demo_funcs_def)
  from Init_funcs [of demo "new_LLVMModuleNode 10 demo_host Map.empty" "''llvm''" demo_funcs] h
  show ?thesis by (simp add: demo_funcs_def) (simp add: demo_def)
qed

subsection \<open>Destruction\<close>

text \<open>
  Claim C8: when a module whose engine was built is destroyed, the static destructors of
  the unit run before the engine is deleted: the destructor's last two effects are the run
  of the static destructors and then the deletion of the engine.
\<close>

theorem destroy_order:
  assumes "ee s \<noteq> nullptr"
  shows "trace (destroy_LLVMModuleNode x s) =
           trace s @ (if module s \<noteq> nullptr then [Ev_delete_Module (module s)] else [])
           @ [Ev_runStaticConstructorsDestructors (ee s) True, Ev_delete_ExecutionEngine (ee s)] \<and>
         host (destroy_LLVMModuleNode x s) = runStaticConstructorsDestructors x (ee s) True (host s)"
  using assms by (simp add: destroy_LLVMModuleNode_def Let_def)

theorem destroy_order_witness:
  "ee demo_built \<noteq> nullptr \<and>
   trace (destroy_LLVMModuleNode demo demo_built) =
     [Ev_create 40 21 50, Ev_runStaticConstructorsDestructors 50 False, Ev_store 200 10,
      Ev_runStaticConstructorsDestructors 50 True, Ev_delete_ExecutionEngine 50]"
proof -
  have h: "ee demo_built \<noteq> nullptr" by (simp add: demo_built_def nullptr_def)
  from destroy_order [OF h, of demo] h show ?thesis
    by (simp add: demo_built_def nullptr_def)
qed

subsection \<open>The module context slot\<close>

text \<open>
  Claim C9: during the construction, after the engine is built and the static initialisers
  have run, the address of the reserved global \<open>tvm_module_ctx\<close> is resolved; when it is not
  null, the pointer to the node itself is stored there, over whatever the initialisers left
  in memory; when it is null nothing is stored and the construction still succeeds.
\<close>

theorem LazyInitJIT_ctx_slot:
  assumes "ee s = nullptr" and "mptr s \<noteq> nullptr"
    and "selectTarget x (module s) = t" and "t \<noteq> nullptr"
    and "layout_eq x (createDataLayout x t) (getDataLayout x (mptr s))"
    and "create x (module s) t = e" and "e \<noteq> nullptr"
    and "getGlobalValueAddress x e (tvm_module_ctx x) = a"
    and "runStaticConstructorsDestructors x e False (host s) = h"
  shows "fst (LazyInitJIT x s) = Inr () \<and>
         ee (snd (LazyInitJIT x s)) = e \<and>
         trace (snd (LazyInitJIT x s)) =
           trace s @ [Ev_create (module s) t e, Ev_runStaticConstructorsDestructors e False]
           @ (if a \<noteq> nullptr then [Ev_store a (this s)] else []) \<and>
         host (snd (LazyInitJIT x s)) =
           (if a \<noteq> nullptr then h\<lparr>memory := (memory h)(a := this s)\<rparr> else h)"
  using assms by (simp add: LazyInitJIT_def LazyInitJIT_locked_def Let_def)

theorem LazyInitJIT_ctx_slot_witness:
  "ee demo_node = nullptr \<and> mptr demo_node \<noteq> nullptr \<and>
   selectTarget demo (module demo_node) = 21 \<and> (21::nat) \<noteq> nullptr \<and>
   layout_eq demo (createDataLayout demo 21) (getDataLayout demo (mptr demo_node)) \<and>
   create demo (module demo_node) 21 = 50 \<and> (50::nat) \<noteq> nullptr \<and>
   getGlobalValueAddress demo 50 (tvm_module_ctx demo) = 200 \<and>
   fst (LazyInitJIT demo demo_node) = Inr () \<and>
   memory (host (snd (LazyInitJIT demo demo_node))) 200 = this demo_node \<and>
   trace (snd (LazyInitJIT demo demo_node)) =
     [Ev_create 40 21 50, Ev_runStaticConstructorsDestructors 50 False, Ev_store 200 10] \<and>
   getGlobalValueAddress demo_noslot 50 (tvm_module_ctx demo_noslot) = nullptr \<and>
   fst (LazyInitJIT demo_noslot demo_node) = Inr () \<and>
   host (snd (LazyInitJIT demo_noslot demo_node)) = host demo_node \<and>
   trace (snd (LazyInitJIT demo_noslot demo_node)) =
     [Ev_create 40 21 50, Ev_runStaticConstructorsDestructors 50 False]"
proof -
  have c: "ee demo_node = nullptr" "mptr demo_node \<noteq> nullptr" "(21::nat) \<noteq> nullptr"
    "(50::nat) \<noteq> nullptr"
    by (simp_all add: demo_node_def nullptr_def)
  have d: "selectTarget demo (module demo_node) = 21"
    "layout_eq demo (createDataLayout demo 21) (getDataLayout demo (mptr demo_node))"
    "create demo (module demo_node) 21 = 50"
    "getGlobalValueAddress demo 50 (tvm_module_ctx demo) = 200"
    "runStaticConstructorsDestructors demo 50 False (host demo_node) = host demo_node"
    by (simp_all add: demo_def demo_node_def)
  have n: "selectTarget demo_noslot (module demo_node) = 21"
    "layout_eq demo_noslot (createDataLayout demo_noslot 21) (getDataLayout demo_noslot (mptr demo_node))"
    "create demo_noslot (module demo_node) 21 = 50"
    "getGlobalValueAddress demo_noslot 50 (tvm_module_ctx demo_noslot) = nullptr"
    "runStaticConstructorsDestructors demo_noslot 50 False (host demo_node) = host demo_node"
    by (simp_all add: demo_noslot_def demo_def demo_node_def nullptr_def)
  from LazyInitJIT_ctx_slot [OF c(1) c(2) d(1) c(3) d(2) d(3) c(4) d(4) d(5)]
    LazyInitJIT_ctx_slot [OF c(1) c(2) n(1) c(3) n(2) n(3) c(4) n(4) n(5)] c d n
  show ?thesis by (simp add: demo_node_def nullptr_def)
qed

end
